theory Spec2Isabelle
  imports Complex_Main "HOL-Library.Char_ord" "HOL-Library.List_Lexorder"
    "HOL-Library.Product_Lexorder"
begin

section \<open>Values, errors and tables\<close>

text \<open>
  A pandas column holds strings, floating-point numbers or the missing value NaN.
  Floating-point scores are modelled as reals: the thresholds \<open>0.7\<close> and \<open>0.1\<close> of the
  source are the literals the scores are compared with, and the comparisons are exact.
  Strings are lists of characters, so \<open>len\<close> counts the characters of ASCII text.
\<close>

datatype cell = Str string | Num real | NaN

text \<open>The exceptions the modelled code can raise; each is a value here.\<close>

datatype error =
    KeyError string
  | IndexError
  | AttributeError
  | TypeError
  | ReadError string

definition bind_result :: "error + 'a \<Rightarrow> ('a \<Rightarrow> error + 'b) \<Rightarrow> error + 'b" where
  "bind_result r f = (case r of Inl e \<Rightarrow> Inl e | Inr v \<Rightarrow> f v)"

text \<open>Applying a function that may raise to every element stops at the first exception.\<close>

fun collect :: "(error + 'a) list \<Rightarrow> error + 'a list" where
  "collect [] = Inr []"
| "collect (r # rs) =
     (case r of
        Inl e \<Rightarrow> Inl e
      | Inr v \<Rightarrow> (case collect rs of Inl e \<Rightarrow> Inl e | Inr vs \<Rightarrow> Inr (v # vs)))"

text \<open>
  A DataFrame is its columns in order, each a name with the cells of all rows; rows are
  addressed by position (the default integer index). \<open>df[name]\<close> raises \<open>KeyError\<close>
  for a column that is not there; \<open>df[name] = values\<close> replaces the column in place
  or appends a new one.
\<close>

type_synonym column = "cell list"

type_synonym dataframe = "(string \<times> column) list"

definition columns :: "dataframe \<Rightarrow> string list" where
  "columns df = map fst df"

definition get_column :: "dataframe \<Rightarrow> string \<Rightarrow> error + column" where
  "get_column df name =
     (case map_of df name of None \<Rightarrow> Inl (KeyError name) | Some c \<Rightarrow> Inr c)"

definition set_column :: "dataframe \<Rightarrow> string \<Rightarrow> column \<Rightarrow> dataframe" where
  "set_column df name vals =
     (if name \<in> set (columns df)
      then map (\<lambda>(n, c). if n = name then (n, vals) else (n, c)) df
      else df @ [(name, vals)])"

text \<open>
  DataFrames are mutable objects that callers share by reference. The store holds every
  live DataFrame; an address is a position in it. \<open>df.copy()\<close> allocates a new object
  with the same content (a deep copy, the default), and an assignment to a column
  updates the object at its address.
\<close>

type_synonym store = "dataframe list"

definition df_copy :: "store \<Rightarrow> nat \<Rightarrow> nat \<times> store" where
  "df_copy st a = (length st, st @ [st ! a])"

definition store_set_column :: "store \<Rightarrow> nat \<Rightarrow> string \<Rightarrow> column \<Rightarrow> store" where
  "store_set_column st a name vals = st[a := set_column (st ! a) name vals]"


section \<open>sentiment\_analysis.py\<close>

subsection \<open>classify\_sentiment\<close>

text \<open>
  \<^verbatim>\<open>
  if compound_score >= 0.7:    return "very-positive"
  elif compound_score >= 0.1:  return "positive"
  elif compound_score >= -0.1: return "neutral"
  elif compound_score >= -0.7: return "negative"
  else:                        return "very-negative"
  \<close>
\<close>

definition classify_sentiment :: "real \<Rightarrow> string" where
  "classify_sentiment compound_score =
     (if compound_score \<ge> 7 / 10 then ''very-positive''
      else if compound_score \<ge> 1 / 10 then ''positive''
      else if compound_score \<ge> - (1 / 10) then ''neutral''
      else if compound_score \<ge> - (7 / 10) then ''negative''
      else ''very-negative'')"

definition sentiment_categories :: "string list" where
  "sentiment_categories =
     [''very-negative'', ''negative'', ''neutral'', ''positive'', ''very-positive'']"

subsection \<open>The binning of add\_sentiment\_analysis\<close>

text \<open>
  \<^verbatim>\<open>
  df['sentiment_category'] = pd.cut(x=df['headline_sentiment'],
      bins=[-1, -0.7, -0.1, 0.1, 0.7, 1],
      labels=["very-negative", "negative", "neutral", "positive", "very-positive"],
      precision=3)
  \<close>
  The call leaves \<open>right\<close> and \<open>include_lowest\<close> at their defaults (\<open>True\<close> and
  \<open>False\<close>). pandas then finds the bin of \<open>x\<close> with \<open>bins.searchsorted(x, side='left')\<close>,
  the number of edges strictly below \<open>x\<close>, and gives NaN when that index is \<open>0\<close> or
  \<open>len(bins)\<close>: every bin is open on the left and closed on the right.
\<close>

definition searchsorted_left :: "real list \<Rightarrow> real \<Rightarrow> nat" where
  "searchsorted_left bins x = length (takeWhile (\<lambda>b. b < x) bins)"

definition pd_cut :: "real list \<Rightarrow> string list \<Rightarrow> cell \<Rightarrow> cell" where
  "pd_cut bins labels c =
     (case c of
        Num x \<Rightarrow>
          (let ids = searchsorted_left bins x
           in if ids = 0 \<or> ids = length bins then NaN else Str (labels ! (ids - 1)))
      | _ \<Rightarrow> NaN)"

definition sentiment_bins :: "real list" where
  "sentiment_bins = [- 1, - (7 / 10), - (1 / 10), 1 / 10, 7 / 10, 1]"

definition cut_sentiment_category :: "cell \<Rightarrow> cell" where
  "cut_sentiment_category c = pd_cut sentiment_bins sentiment_categories c"

subsection \<open>The three-way grouping of add\_sentiment\_analysis\<close>

text \<open>
  \<^verbatim>\<open>
  df['sentiment_group'] = df['sentiment_category'].astype(str).replace({
      'very-positive': 'positive', 'very-negative': 'negative'})
  \<close>
  \<open>astype(str)\<close> turns a missing category into the string \<open>nan\<close>; a number would be
  printed by Python's \<open>repr\<close>, which is a parameter here. \<open>replace\<close> with a dictionary
  exchanges the values that are equal to a key and keeps every other value.
\<close>

definition astype_str :: "(real \<Rightarrow> string) \<Rightarrow> cell \<Rightarrow> cell" where
  "astype_str float_repr c =
     (case c of Str s \<Rightarrow> Str s | Num x \<Rightarrow> Str (float_repr x) | NaN \<Rightarrow> Str ''nan'')"

definition replace_values :: "(string \<times> string) list \<Rightarrow> cell \<Rightarrow> cell" where
  "replace_values d c =
     (case c of
        Str s \<Rightarrow> (case map_of d s of Some t \<Rightarrow> Str t | None \<Rightarrow> Str s)
      | _ \<Rightarrow> c)"

definition group_replacements :: "(string \<times> string) list" where
  "group_replacements =
     [(''very-positive'', ''positive''), (''very-negative'', ''negative'')]"

definition sentiment_group :: "(real \<Rightarrow> string) \<Rightarrow> cell \<Rightarrow> cell" where
  "sentiment_group float_repr c = replace_values group_replacements (astype_str float_repr c)"


section \<open>publisher\_analysis.py\<close>

subsection \<open>extract\_organization\_from\_email\<close>

text \<open>
  Python's \<open>s.split(sep)\<close> for a separator of one character: the pieces between the
  occurrences of \<open>sep\<close>, one more than there are occurrences, empty pieces included.
\<close>

fun split_on :: "char \<Rightarrow> string \<Rightarrow> string list" where
  "split_on sep [] = [[]]"
| "split_on sep (c # cs) =
     (if c = sep then [] # split_on sep cs
      else (case split_on sep cs of [] \<Rightarrow> [[c]] | p # ps \<Rightarrow> (c # p) # ps))"

text \<open>\<open>xs[i]\<close> for \<open>i \<ge> 0\<close> raises \<open>IndexError\<close> past the end of the list.\<close>

definition index :: "'a list \<Rightarrow> nat \<Rightarrow> error + 'a" where
  "index xs i = (if i < length xs then Inr (xs ! i) else Inl IndexError)"

text \<open>
  \<^verbatim>\<open>
  if '@' not in email:
      return email
  domain = email.split('@')[1]
  organization = domain.split('.')[0]
  return organization
  \<close>
\<close>

definition extract_organization_from_email :: "string \<Rightarrow> error + string" where
  "extract_organization_from_email email =
     (if CHR ''@'' \<notin> set email then Inr email
      else bind_result (index (split_on (CHR ''@'') email) 1) (\<lambda>domain.
           bind_result (index (split_on (CHR ''.'') domain) 0) (\<lambda>organization.
           Inr organization)))"

text \<open>
  The specification speaks of the domain part of an email-shaped string: the text after
  its \<open>@\<close>, taken here after the first one.
\<close>

definition spec_domain_part :: "string \<Rightarrow> string" where
  "spec_domain_part s = tl (dropWhile (\<lambda>c. c \<noteq> CHR ''@'') s)"

subsection \<open>add\_organization\_column\<close>

text \<open>
  \<open>df[col].str.contains('@', na=False)\<close>: the \<open>.str\<close> accessor raises
  \<open>AttributeError\<close> on a column that is not of strings; a column read from a CSV file
  is one of strings when it has no rows or holds at least one string. A cell that is not
  a string gives the \<open>na\<close> value \<open>False\<close>.
\<close>

definition is_str :: "cell \<Rightarrow> bool" where
  "is_str c = (case c of Str s \<Rightarrow> True | _ \<Rightarrow> False)"

definition str_contains :: "char \<Rightarrow> column \<Rightarrow> error + bool list" where
  "str_contains ch col =
     (if col = [] \<or> list_ex is_str col
      then Inr (map (\<lambda>c. case c of Str s \<Rightarrow> ch \<in> set s | _ \<Rightarrow> False) col)
      else Inl AttributeError)"

text \<open>
  \<open>df.loc[mask, col]\<close> is the series of the rows the mask selects, each value with its
  row label; \<open>apply\<close> keeps the labels; \<open>df.loc[mask, col] = series\<close> writes, in the rows
  the mask selects, the value the series has for that row label (NaN when it has none)
  and keeps the other rows, which are NaN when the column is new.
\<close>

type_synonym series = "(nat \<times> cell) list"

definition loc_select :: "bool list \<Rightarrow> column \<Rightarrow> series" where
  "loc_select selected col =
     map (\<lambda>i. (i, col ! i)) (filter (\<lambda>i. selected ! i) [0..<length col])"

definition series_apply :: "(cell \<Rightarrow> error + cell) \<Rightarrow> series \<Rightarrow> error + series" where
  "series_apply f s = collect (map (\<lambda>(i, c). bind_result (f c) (\<lambda>v. Inr (i, v))) s)"

definition loc_assign :: "dataframe \<Rightarrow> bool list \<Rightarrow> string \<Rightarrow> series \<Rightarrow> dataframe" where
  "loc_assign df selected name vals =
     (let old = (case map_of df name of
                   Some c \<Rightarrow> c
                 | None \<Rightarrow> replicate (length selected) NaN)
      in set_column df name
           (map (\<lambda>i. if selected ! i
                      then (case map_of vals i of Some v \<Rightarrow> v | None \<Rightarrow> NaN)
                      else old ! i)
              [0..<length selected]))"

text \<open>The function \<open>apply\<close> runs on a cell of the publisher column.\<close>

definition extract_organization_cell :: "cell \<Rightarrow> error + cell" where
  "extract_organization_cell c =
     (case c of
        Str s \<Rightarrow> bind_result (extract_organization_from_email s) (\<lambda>org. Inr (Str org))
      | _ \<Rightarrow> Inl TypeError)"

text \<open>
  \<^verbatim>\<open>
  df = df.copy()
  email_mask = df[publisher_column].str.contains('@', na=False)
  df.loc[email_mask, organization_column] = df.loc[email_mask, publisher_column].apply(
      extract_organization_from_email)
  return df
  \<close>
  The result is the address of the returned DataFrame, or the exception, with the store
  as the call leaves it.
\<close>

definition add_organization_column ::
    "store \<Rightarrow> nat \<Rightarrow> string \<Rightarrow> string \<Rightarrow> (error + nat) \<times> store" where
  "add_organization_column st df publisher_column organization_column =
     (let (df', st1) = df_copy st df
      in case get_column (st1 ! df') publisher_column of
           Inl e \<Rightarrow> (Inl e, st1)
         | Inr publishers \<Rightarrow>
             (case str_contains (CHR ''@'') publishers of
                Inl e \<Rightarrow> (Inl e, st1)
              | Inr email_mask \<Rightarrow>
                  (case series_apply extract_organization_cell
                          (loc_select email_mask publishers) of
                     Inl e \<Rightarrow> (Inl e, st1)
                   | Inr organizations \<Rightarrow>
                       (Inr df',
                        st1[df' := loc_assign (st1 ! df') email_mask organization_column
                                     organizations]))))"

subsection \<open>get\_organization\_counts\<close>

text \<open>
  \<open>Series.value_counts()\<close>: the distinct values that are not NaN, each with the number of
  its occurrences, most frequent first. The distinct values are met in the order of their
  first occurrence; the sort is taken to keep that order among equal counts.
\<close>

fun unique :: "'a list \<Rightarrow> 'a list" where
  "unique [] = []"
| "unique (x # xs) = x # filter (\<lambda>y. y \<noteq> x) (unique xs)"

definition value_counts :: "column \<Rightarrow> (cell \<times> nat) list" where
  "value_counts col =
     (let present = filter (\<lambda>c. c \<noteq> NaN) col
      in sort_key (\<lambda>(v, n). - int n) (map (\<lambda>v. (v, count_list present v)) (unique present)))"

text \<open>
  \<^verbatim>\<open>
  if organization_column not in df.columns:
      df = add_organization_column(df)
  org_counts = df[organization_column].value_counts().reset_index()
  org_counts.columns = ['organization', 'count']
  return org_counts
  \<close>
  The call of \<open>add_organization_column\<close> takes the default column names \<open>publisher\<close>
  and \<open>organization\<close>. The returned two-column table is given by its rows, each an
  organization with its count.
\<close>

definition get_organization_counts ::
    "store \<Rightarrow> nat \<Rightarrow> string \<Rightarrow> (error + (cell \<times> nat) list) \<times> store" where
  "get_organization_counts st df organization_column =
     (let (r, st1) =
            (if organization_column \<notin> set (columns (st ! df))
             then add_organization_column st df ''publisher'' ''organization''
             else (Inr df, st))
      in case r of
           Inl e \<Rightarrow> (Inl e, st1)
         | Inr df1 \<Rightarrow>
             (case get_column (st1 ! df1) organization_column of
                Inl e \<Rightarrow> (Inl e, st1)
              | Inr col \<Rightarrow> (Inr (value_counts col), st1)))"

subsection \<open>Notions used to state what the counts are\<close>

text \<open>
  A publisher cell is an email of organization \<open>org\<close> when it is a string with an
  \<open>@\<close> from which \<open>extract_organization_from_email\<close> returns \<open>org\<close>.
\<close>

definition email_with_organization :: "string \<Rightarrow> cell \<Rightarrow> bool" where
  "email_with_organization org c =
     (case c of
        Str s \<Rightarrow> CHR ''@'' \<in> set s \<and> extract_organization_from_email s = Inr org
      | _ \<Rightarrow> False)"

text \<open>
  The mask entry of a publisher cell, and the cell a new organization column gets for
  it: the extracted organization for an email, NaN for everything else.
\<close>

definition has_at :: "cell \<Rightarrow> bool" where
  "has_at c = (case c of Str s \<Rightarrow> CHR ''@'' \<in> set s | _ \<Rightarrow> False)"

definition organization_cell :: "cell \<Rightarrow> cell" where
  "organization_cell c =
     (case c of
        Str s \<Rightarrow>
          (if CHR ''@'' \<in> set s
           then (case extract_organization_from_email s of
                   Inr org \<Rightarrow> Str org
                 | Inl e \<Rightarrow> NaN)
           else NaN)
      | _ \<Rightarrow> NaN)"


section \<open>sentiment\_analysis.py: scoring and the table function\<close>

subsection \<open>Scoring a headline\<close>

text \<open>
  The VADER analyzer is a library object: \<open>analyzer.polarity_scores(text)\<close> returns a
  dictionary of scores for a string, and its \<open>text.encode\<close> raises \<open>AttributeError\<close>
  for a value that is not a string (a missing headline is the float NaN). The scoring is a
  parameter: \<open>vader\<close> is the analyzer \<open>initialize_sentiment_analyzer\<close> returns, used
  when the caller passes \<open>None\<close>.
  \<^verbatim>\<open>
  def calculate_sentiment_scores(text, analyzer=None):
      if analyzer is None:
          analyzer = initialize_sentiment_analyzer()
      return analyzer.polarity_scores(text)

  def get_compound_sentiment(text, analyzer=None):
      scores = calculate_sentiment_scores(text, analyzer)
      return scores['compound']
  \<close>
\<close>

type_synonym analyzer = "string \<Rightarrow> (string \<times> real) list"

definition calculate_sentiment_scores ::
    "analyzer \<Rightarrow> cell \<Rightarrow> analyzer option \<Rightarrow> error + (string \<times> real) list" where
  "calculate_sentiment_scores vader text analyzer =
     (let polarity_scores = (case analyzer of None \<Rightarrow> vader | Some a \<Rightarrow> a)
      in case text of Str s \<Rightarrow> Inr (polarity_scores s) | _ \<Rightarrow> Inl AttributeError)"

definition get_compound_sentiment ::
    "analyzer \<Rightarrow> cell \<Rightarrow> analyzer option \<Rightarrow> error + cell" where
  "get_compound_sentiment vader text analyzer =
     bind_result (calculate_sentiment_scores vader text analyzer) (\<lambda>scores.
       case map_of scores ''compound'' of
         None \<Rightarrow> Inl (KeyError ''compound'')
       | Some v \<Rightarrow> Inr (Num v))"

subsection \<open>add\_sentiment\_analysis\<close>

text \<open>
  \<^verbatim>\<open>
  df = df.copy()
  if analyzer is None:
      analyzer = initialize_sentiment_analyzer()
  df['headline_sentiment'] = df[headline_column].apply(
      lambda headline: get_compound_sentiment(headline, analyzer))
  df['sentiment_category'] = pd.cut(x=df['headline_sentiment'], ...)
  df['sentiment_group'] = df['sentiment_category'].astype(str).replace({...})
  return df
  \<close>
\<close>

definition add_sentiment_analysis ::
    "analyzer \<Rightarrow> (real \<Rightarrow> string) \<Rightarrow> store \<Rightarrow> nat \<Rightarrow> string \<Rightarrow> analyzer option
      \<Rightarrow> (error + nat) \<times> store" where
  "add_sentiment_analysis vader float_repr st df headline_column analyzer =
     (let (df', st1) = df_copy st df;
          analyzer' = (case analyzer of None \<Rightarrow> Some vader | Some a \<Rightarrow> Some a)
      in case get_column (st1 ! df') headline_column of
           Inl e \<Rightarrow> (Inl e, st1)
         | Inr headlines \<Rightarrow>
             (case collect (map (\<lambda>headline. get_compound_sentiment vader headline analyzer')
                               headlines) of
                Inl e \<Rightarrow> (Inl e, st1)
              | Inr scores \<Rightarrow>
                  (let st2 = store_set_column st1 df' ''headline_sentiment'' scores
                   in case get_column (st2 ! df') ''headline_sentiment'' of
                        Inl e \<Rightarrow> (Inl e, st2)
                      | Inr sentiment \<Rightarrow>
                          (let st3 = store_set_column st2 df' ''sentiment_category''
                                       (map cut_sentiment_category sentiment)
                           in case get_column (st3 ! df') ''sentiment_category'' of
                                Inl e \<Rightarrow> (Inl e, st3)
                              | Inr category \<Rightarrow>
                                  (Inr df',
                                   store_set_column st3 df' ''sentiment_group''
                                     (map (sentiment_group float_repr) category))))))"


section \<open>text\_processing.py\<close>

subsection \<open>get\_tokens\<close>

text \<open>
  The NLTK resources are library data: the English stop words and the tokenizer
  \<open>nltk.word_tokenize\<close>. They are taken as given; the download the source starts on a
  \<open>LookupError\<close> only makes them available.
\<close>

record nltk =
  stopwords_words :: "string list"
  word_tokenize :: "string \<Rightarrow> string list"

text \<open>
  Python's string methods \<open>lower\<close>, \<open>strip\<close> and \<open>isalpha\<close>, on text whose characters
  have codes below 128.
\<close>

definition lower_char :: "char \<Rightarrow> char" where
  "lower_char c =
     (let n = (of_char c :: nat) in if 65 \<le> n \<and> n \<le> 90 then char_of (n + 32) else c)"

definition lower :: "string \<Rightarrow> string" where
  "lower s = map lower_char s"

definition is_space :: "char \<Rightarrow> bool" where
  "is_space c = (let n = (of_char c :: nat) in (9 \<le> n \<and> n \<le> 13) \<or> (28 \<le> n \<and> n \<le> 32))"

definition strip :: "string \<Rightarrow> string" where
  "strip s = rev (dropWhile is_space (rev (dropWhile is_space s)))"

definition is_alpha_char :: "char \<Rightarrow> bool" where
  "is_alpha_char c =
     (let n = (of_char c :: nat) in (65 \<le> n \<and> n \<le> 90) \<or> (97 \<le> n \<and> n \<le> 122))"

definition isalpha :: "string \<Rightarrow> bool" where
  "isalpha s = (s \<noteq> [] \<and> list_all is_alpha_char s)"

text \<open>
  \<open>punctuation = set(string.punctuation)\<close> is the set of the 32 ASCII punctuation
  characters (codes 33 to 47, 58 to 64, 91 to 96 and 123 to 126), each as a string of
  length one.
\<close>

definition is_punctuation_char :: "char \<Rightarrow> bool" where
  "is_punctuation_char c =
     (let n = (of_char c :: nat)
      in (33 \<le> n \<and> n \<le> 47) \<or> (58 \<le> n \<and> n \<le> 64) \<or> (91 \<le> n \<and> n \<le> 96)
         \<or> (123 \<le> n \<and> n \<le> 126))"

definition in_punctuation :: "string \<Rightarrow> bool" where
  "in_punctuation token = (case token of [c] \<Rightarrow> is_punctuation_char c | _ \<Rightarrow> False)"

text \<open>
  \<^verbatim>\<open>
  for token in tokens:
      token = token.strip()
      if not token: continue
      if remove_stopwords and token in stop_words: continue
      if remove_punctuation and token in punctuation: continue
      if not token.isalpha(): continue
      result.append(token)
  \<close>
\<close>

fun clean_tokens :: "string list \<Rightarrow> bool \<Rightarrow> bool \<Rightarrow> string list \<Rightarrow> string list" where
  "clean_tokens stop_words remove_stopwords remove_punctuation [] = []"
| "clean_tokens stop_words remove_stopwords remove_punctuation (t # tokens) =
     (let token = strip t;
          result = clean_tokens stop_words remove_stopwords remove_punctuation tokens
      in if token = [] then result
         else if remove_stopwords \<and> token \<in> set stop_words then result
         else if remove_punctuation \<and> in_punctuation token then result
         else if \<not> isalpha token then result
         else token # result)"

definition get_tokens :: "nltk \<Rightarrow> string \<Rightarrow> bool \<Rightarrow> bool \<Rightarrow> bool \<Rightarrow> string list" where
  "get_tokens lib headline remove_stopwords remove_punctuation lowercase =
     (let stop_words = stopwords_words lib;
          headline' = (if lowercase then lower headline else headline);
          tokens = word_tokenize lib headline'
      in clean_tokens stop_words remove_stopwords remove_punctuation tokens)"

subsection \<open>get\_word\_frequencies\<close>

text \<open>
  \<open>collections.Counter\<close> is a dictionary from elements to counts that keeps the order in
  which the elements were first met. \<open>most_common()\<close> sorts its items by count, largest
  first, elements of equal count in the order first met; \<open>most_common(n)\<close> is the first
  \<open>n\<close> of them, none for \<open>n \<le> 0\<close>.
\<close>

fun counter_add :: "'a \<Rightarrow> ('a \<times> nat) list \<Rightarrow> ('a \<times> nat) list" where
  "counter_add x [] = [(x, 1)]"
| "counter_add x ((k, n) # kvs) =
     (if k = x then (k, n + 1) # kvs else (k, n) # counter_add x kvs)"

definition Counter :: "'a list \<Rightarrow> ('a \<times> nat) list" where
  "Counter xs = foldl (\<lambda>c x. counter_add x c) [] xs"

definition most_common :: "('a \<times> nat) list \<Rightarrow> int option \<Rightarrow> ('a \<times> nat) list" where
  "most_common c n =
     (let by_count = sort_key (\<lambda>(k, v). - int v) c
      in case n of None \<Rightarrow> by_count | Some m \<Rightarrow> take (nat m) by_count)"

text \<open>
  \<^verbatim>\<open>
  all_tokens = []
  for headline in headlines:
      tokens = get_tokens(headline)
      all_tokens.extend(tokens)
  word_counts = Counter(all_tokens)
  if top_n:
      return word_counts.most_common(top_n)
  return word_counts.most_common()
  \<close>
  \<open>top_n\<close> is \<open>None\<close> or an integer; \<open>if top_n\<close> is false for \<open>None\<close> and for \<open>0\<close>.
\<close>

fun extend_tokens :: "nltk \<Rightarrow> string list \<Rightarrow> string list \<Rightarrow> string list" where
  "extend_tokens lib all_tokens [] = all_tokens"
| "extend_tokens lib all_tokens (headline # headlines) =
     extend_tokens lib (all_tokens @ get_tokens lib headline True True True) headlines"

definition get_word_frequencies ::
    "nltk \<Rightarrow> string list \<Rightarrow> int option \<Rightarrow> (string \<times> nat) list" where
  "get_word_frequencies lib headlines top_n =
     (let all_tokens = extend_tokens lib [] headlines;
          word_counts = Counter all_tokens
      in if top_n \<noteq> None \<and> top_n \<noteq> Some 0
         then most_common word_counts top_n
         else most_common word_counts None)"

subsection \<open>get\_trigrams\<close>

text \<open>
  \<open>TrigramCollocationFinder\<close> is library code. \<open>from_words\<close> slides a window of three
  over the words, padded on the right with two \<open>None\<close>, and counts in its trigram
  frequency table every window that has no \<open>None\<close> in it:
  \<^verbatim>\<open>
  for window in ngrams(words, 3, pad_right=True):
      w1 = window[0]
      if w1 is None: continue
      for w2, w3 in combinations(window[1:], 2):
          wfd[w1] += 1
          if w2 is None: continue
          bfd[(w1, w2)] += 1
          if w3 is None: continue
          wildfd[(w1, w3)] += 1
          tfd[(w1, w2, w3)] += 1
  \<close>
  The word, bigram and wildcard tables only enter the score, which is a parameter here.
\<close>

type_synonym trigram = "string \<times> string \<times> string"

fun ngrams3 :: "'a list \<Rightarrow> ('a \<times> 'a \<times> 'a) list" where
  "ngrams3 (a # b # c # xs) = (a, b, c) # ngrams3 (b # c # xs)"
| "ngrams3 xs = []"

definition ngrams_pad_right :: "string list \<Rightarrow> (string option \<times> string option \<times> string option) list" where
  "ngrams_pad_right ws = ngrams3 (map Some ws @ [None, None])"

fun count_trigrams ::
    "(trigram \<times> nat) list \<Rightarrow> (string option \<times> string option \<times> string option) list
      \<Rightarrow> (trigram \<times> nat) list" where
  "count_trigrams tfd [] = tfd"
| "count_trigrams tfd ((w1, w2, w3) # windows) =
     (case w1 of
        None \<Rightarrow> count_trigrams tfd windows
      | Some a \<Rightarrow>
          (case w2 of
             None \<Rightarrow> count_trigrams tfd windows
           | Some b \<Rightarrow>
               (case w3 of
                  None \<Rightarrow> count_trigrams tfd windows
                | Some c \<Rightarrow> count_trigrams (counter_add (a, b, c) tfd) windows)))"

definition from_words :: "string list \<Rightarrow> (trigram \<times> nat) list" where
  "from_words ws = count_trigrams [] (ngrams_pad_right ws)"

text \<open>
  \<open>apply_freq_filter(min_freq)\<close> keeps the entries whose count is not below \<open>min_freq\<close>.
  \<open>nbest(score_fn, n)\<close> scores the entries left, sorts them by \<open>(-score, trigram)\<close> and
  returns the trigrams of the slice \<open>[:n]\<close>; a negative \<open>n\<close> drops the last \<open>-n\<close>.
\<close>

definition apply_freq_filter :: "int \<Rightarrow> (trigram \<times> nat) list \<Rightarrow> (trigram \<times> nat) list" where
  "apply_freq_filter min_freq ngram_fd =
     filter (\<lambda>(ngram, freq). \<not> (int freq < min_freq)) ngram_fd"

definition slice_to :: "int \<Rightarrow> 'a list \<Rightarrow> 'a list" where
  "slice_to n xs = (if 0 \<le> n then take (nat n) xs else take (length xs - nat (- n)) xs)"

definition score_ngrams :: "(trigram \<Rightarrow> real) \<Rightarrow> (trigram \<times> nat) list \<Rightarrow> (trigram \<times> real) list" where
  "score_ngrams score_fn ngram_fd =
     sort_key (\<lambda>(t, s). (- s, t)) (map (\<lambda>(t, freq). (t, score_fn t)) ngram_fd)"

definition nbest :: "(trigram \<Rightarrow> real) \<Rightarrow> int \<Rightarrow> (trigram \<times> nat) list \<Rightarrow> trigram list" where
  "nbest score_fn n ngram_fd = map fst (slice_to n (score_ngrams score_fn ngram_fd))"

text \<open>
  \<^verbatim>\<open>
  all_words = [word for tokens in headlines for word in tokens]
  finder = TrigramCollocationFinder.from_words(all_words)
  finder.apply_freq_filter(freq_filter)
  significant_trigrams = finder.nbest(TrigramAssocMeasures.pmi, top_n)
  return significant_trigrams
  \<close>
  \<open>pmi\<close> gives the score of a trigram from the finder's tables over \<open>all_words\<close>.
\<close>

definition get_trigrams ::
    "(string list \<Rightarrow> trigram \<Rightarrow> real) \<Rightarrow> string list list \<Rightarrow> int \<Rightarrow> int \<Rightarrow> trigram list" where
  "get_trigrams pmi headlines freq_filter top_n =
     (let all_words = concat headlines;
          finder = from_words all_words;
          finder' = apply_freq_filter freq_filter finder
      in nbest (pmi all_words) top_n finder')"

text \<open>
  The number of times a trigram occurs as a contiguous window of three words: the
  positions of the word list at which it starts.
\<close>

definition window_count :: "trigram \<Rightarrow> string list \<Rightarrow> nat" where
  "window_count t ws =
     length (filter (\<lambda>i. take 3 (drop i ws) = [fst t, fst (snd t), snd (snd t)])
               [0..<length ws])"

text \<open>The count a frequency table holds for a key, zero for a key it does not have.\<close>

definition count_of :: "('a \<times> nat) list \<Rightarrow> 'a \<Rightarrow> nat" where
  "count_of c k = (case map_of c k of None \<Rightarrow> 0 | Some n \<Rightarrow> n)"

subsection \<open>add\_headline\_length\<close>

text \<open>
  \<^verbatim>\<open>
  df = df.copy()
  df[headline_column] = df[headline_column].astype(str)
  df['headline_length'] = df[headline_column].apply(len)
  return df
  \<close>
  \<open>len\<close> raises \<open>TypeError\<close> for a value that is not a string.
\<close>

definition len_cell :: "cell \<Rightarrow> error + cell" where
  "len_cell c = (case c of Str s \<Rightarrow> Inr (Num (real (length s))) | _ \<Rightarrow> Inl TypeError)"

definition add_headline_length ::
    "(real \<Rightarrow> string) \<Rightarrow> store \<Rightarrow> nat \<Rightarrow> string \<Rightarrow> (error + nat) \<times> store" where
  "add_headline_length float_repr st df headline_column =
     (let (df', st1) = df_copy st df
      in case get_column (st1 ! df') headline_column of
           Inl e \<Rightarrow> (Inl e, st1)
         | Inr col \<Rightarrow>
             (let st2 = store_set_column st1 df' headline_column
                          (map (astype_str float_repr) col)
              in case get_column (st2 ! df') headline_column of
                   Inl e \<Rightarrow> (Inl e, st2)
                 | Inr strs \<Rightarrow>
                     (case collect (map len_cell strs) of
                        Inl e \<Rightarrow> (Inl e, st2)
                      | Inr lens \<Rightarrow>
                          (Inr df', store_set_column st2 df' ''headline_length'' lens))))"


section \<open>data\_loader.py\<close>

subsection \<open>load\_stock\_data\<close>

text \<open>
  The file system is what the function sees of it: \<open>os.path.exists\<close> and
  \<open>pd.read_csv\<close>, which returns a table or raises. \<open>pd.to_datetime\<close> parses a column
  or raises; it is a parameter. \<open>print\<close> appends a line to the output.
\<close>

record file_system =
  path_exists :: "string \<Rightarrow> bool"
  read_csv :: "string \<Rightarrow> error + dataframe"

text \<open>
  \<open>os.path.join(a, b)\<close> on POSIX: \<open>b\<close> alone when it starts with a slash, else \<open>a\<close>
  and \<open>b\<close> with a slash between them unless \<open>a\<close> is empty or ends with one.
\<close>

definition path_join :: "string \<Rightarrow> string \<Rightarrow> string" where
  "path_join a b =
     (if b \<noteq> [] \<and> hd b = CHR ''/'' then b
      else if a = [] \<or> last a = CHR ''/'' then a @ b
      else a @ ''/'' @ b)"

definition stock_file_path :: "string \<Rightarrow> string \<Rightarrow> string" where
  "stock_file_path base_path ticker = path_join base_path (ticker @ ''.csv'')"

definition warning_line :: "string \<Rightarrow> string \<Rightarrow> string" where
  "warning_line ticker file_path =
     ''Warning: File not found for '' @ ticker @ '': '' @ file_path"

text \<open>
  A Python dictionary keeps its keys in insertion order; \<open>d[k] = v\<close> replaces the value
  of a key that is there and appends a new key otherwise.
\<close>

fun dict_set :: "('k \<times> 'v) list \<Rightarrow> 'k \<Rightarrow> 'v \<Rightarrow> ('k \<times> 'v) list" where
  "dict_set [] k v = [(k, v)]"
| "dict_set ((k', v') # d) k v = (if k' = k then (k, v) # d else (k', v') # dict_set d k v)"

text \<open>
  The branch of an existing file:
  \<^verbatim>\<open>
  df = pd.read_csv(file_path)
  if 'Date' in df.columns:
      df['Date'] = pd.to_datetime(df['Date'])
  \<close>
\<close>

definition load_file ::
    "file_system \<Rightarrow> (column \<Rightarrow> error + column) \<Rightarrow> string \<Rightarrow> error + dataframe" where
  "load_file fs to_datetime file_path =
     bind_result (read_csv fs file_path) (\<lambda>df.
       if ''Date'' \<in> set (columns df)
       then bind_result (get_column df ''Date'') (\<lambda>dates.
            bind_result (to_datetime dates) (\<lambda>parsed.
            Inr (set_column df ''Date'' parsed)))
       else Inr df)"

text \<open>
  \<^verbatim>\<open>
  stock_data = {}
  for ticker in tickers:
      file_path = os.path.join(base_path, f"{ticker}.csv")
      if os.path.exists(file_path):
          ...
          stock_data[ticker] = df
      else:
          print(f"Warning: File not found for {ticker}: {file_path}")
  return stock_data
  \<close>
  The loop carries the dictionary and the lines printed so far; an exception ends it.
\<close>

fun load_loop ::
    "file_system \<Rightarrow> (column \<Rightarrow> error + column) \<Rightarrow> string \<Rightarrow> string list
      \<Rightarrow> (string \<times> dataframe) list \<Rightarrow> string list
      \<Rightarrow> (error + (string \<times> dataframe) list) \<times> string list" where
  "load_loop fs to_datetime base_path [] stock_data out = (Inr stock_data, out)"
| "load_loop fs to_datetime base_path (ticker # tickers) stock_data out =
     (let file_path = stock_file_path base_path ticker
      in if path_exists fs file_path
         then (case load_file fs to_datetime file_path of
                 Inl e \<Rightarrow> (Inl e, out)
               | Inr df \<Rightarrow>
                   load_loop fs to_datetime base_path tickers
                     (dict_set stock_data ticker df) out)
         else load_loop fs to_datetime base_path tickers stock_data
                (out @ [warning_line ticker file_path]))"

definition load_stock_data ::
    "file_system \<Rightarrow> (column \<Rightarrow> error + column) \<Rightarrow> string list \<Rightarrow> string
      \<Rightarrow> (error + (string \<times> dataframe) list) \<times> string list" where
  "load_stock_data fs to_datetime tickers base_path =
     load_loop fs to_datetime base_path tickers [] []"


section \<open>Properties of the sentiment classification\<close>

lemma classify_sentiment_cases:
  "classify_sentiment s \<in> set sentiment_categories"
  by (simp add: classify_sentiment_def sentiment_categories_def)

text \<open>Reading a column back after an assignment.\<close>

lemma map_of_set_column_same:
  "map_of (set_column d name vals) name = Some vals"
proof (cases "name \<in> set (columns d)")
  case True
  then have "map_of (map (\<lambda>(n, c). if n = name then (n, vals) else (n, c)) d) name = Some vals"
    by (induction d) (auto simp: columns_def)
  with True show ?thesis
    by (simp add: set_column_def)
next
  case False
  then have "map_of d name = None"
    by (simp add: columns_def map_of_eq_None_iff)
  then show ?thesis
    using False by (simp add: set_column_def map_add_def)
qed

lemma map_of_replace_other:
  "other \<noteq> name \<Longrightarrow>
     map_of (map (\<lambda>(n, c). if n = name then (n, vals) else (n, c)) d) other = map_of d other"
  by (induction d) auto

lemma map_of_set_column_other:
  "other \<noteq> name \<Longrightarrow> map_of (set_column d name vals) other = map_of d other"
  by (auto simp: set_column_def map_of_replace_other map_add_def split: option.splits)

lemma get_set_column_same: "get_column (set_column d name vals) name = Inr vals"
  by (simp add: get_column_def map_of_set_column_same)

lemma get_set_column_other:
  "other \<noteq> name \<Longrightarrow> get_column (set_column d name vals) other = get_column d other"
  by (simp add: get_column_def map_of_set_column_other)


lemma add_sentiment_analysis_columns:
  assumes "add_sentiment_analysis vader float_repr st df headline_column analyzer = (Inr r, st')"
  shows "\<exists>scores. get_column (st' ! r) ''headline_sentiment'' = Inr scores
    \<and> get_column (st' ! r) ''sentiment_category'' = Inr (map cut_sentiment_category scores)
    \<and> get_column (st' ! r) ''sentiment_group''
        = Inr (map (sentiment_group float_repr) (map cut_sentiment_category scores))"
proof -
  let ?d = "st ! df"
  obtain headlines where h: "get_column ?d headline_column = Inr headlines"
    using assms
    by (cases "get_column ?d headline_column")
      (auto simp: add_sentiment_analysis_def df_copy_def Let_def)
  obtain scores where s: "collect (map (\<lambda>headline. get_compound_sentiment vader headline
        (case analyzer of None \<Rightarrow> Some vader | Some a \<Rightarrow> Some a)) headlines) = Inr scores"
    using assms h
    by (cases "collect (map (\<lambda>headline. get_compound_sentiment vader headline
        (case analyzer of None \<Rightarrow> Some vader | Some a \<Rightarrow> Some a)) headlines)")
      (auto simp: add_sentiment_analysis_def df_copy_def Let_def)
  let ?d1 = "set_column ?d ''headline_sentiment'' scores"
  let ?d2 = "set_column ?d1 ''sentiment_category'' (map cut_sentiment_category scores)"
  let ?d3 = "set_column ?d2 ''sentiment_group''
               (map (sentiment_group float_repr) (map cut_sentiment_category scores))"
  have "r = length st \<and> st' = st @ [?d3]"
    using assms h s
    by (simp add: add_sentiment_analysis_def df_copy_def store_set_column_def Let_def
        get_set_column_same)
  then have "st' ! r = ?d3" by simp
  then show ?thesis
    by (simp add: get_set_column_same get_set_column_other)
qed

text \<open>
  C1. For every score in \<open>[-1, 1]\<close>, \<open>classify_sentiment\<close> returns one of the five
  category strings, and which one is fixed by the thresholds, each bin closed at its
  lower edge: \<open>very-positive\<close> exactly from \<open>0.7\<close> up, \<open>positive\<close> exactly on
  \<open>[0.1, 0.7)\<close>, \<open>neutral\<close> on \<open>[-0.1, 0.1)\<close>, \<open>negative\<close> on \<open>[-0.7, -0.1)\<close> and
  \<open>very-negative\<close> below \<open>-0.7\<close>; a score of exactly \<open>0.7\<close> is \<open>very-positive\<close>.
\<close>

theorem classify_sentiment_partition:
  assumes "- 1 \<le> s" and "s \<le> 1"
  shows "classify_sentiment s \<in> set sentiment_categories
    \<and> (classify_sentiment s = ''very-positive'' \<longleftrightarrow> 7 / 10 \<le> s)
    \<and> (classify_sentiment s = ''positive'' \<longleftrightarrow> 1 / 10 \<le> s \<and> s < 7 / 10)
    \<and> (classify_sentiment s = ''neutral'' \<longleftrightarrow> - (1 / 10) \<le> s \<and> s < 1 / 10)
    \<and> (classify_sentiment s = ''negative'' \<longleftrightarrow> - (7 / 10) \<le> s \<and> s < - (1 / 10))
    \<and> (classify_sentiment s = ''very-negative'' \<longleftrightarrow> s < - (7 / 10))
    \<and> classify_sentiment (7 / 10) = ''very-positive''
    \<and> classify_sentiment (7 / 10) \<noteq> ''positive''"
proof -
  have "classify_sentiment s \<in> set sentiment_categories"
    by (rule classify_sentiment_cases)
  moreover have "classify_sentiment s = ''very-positive'' \<longleftrightarrow> 7 / 10 \<le> s"
    by (simp add: classify_sentiment_def)
  moreover have "classify_sentiment s = ''positive'' \<longleftrightarrow> 1 / 10 \<le> s \<and> s < 7 / 10"
    by (auto simp: classify_sentiment_def)
  moreover have "classify_sentiment s = ''neutral'' \<longleftrightarrow> - (1 / 10) \<le> s \<and> s < 1 / 10"
    by (auto simp: classify_sentiment_def)
  moreover have "classify_sentiment s = ''negative'' \<longleftrightarrow> - (7 / 10) \<le> s \<and> s < - (1 / 10)"
    by (auto simp: classify_sentiment_def)
  moreover have "classify_sentiment s = ''very-negative'' \<longleftrightarrow> s < - (7 / 10)"
    by (auto simp: classify_sentiment_def)
  moreover have "classify_sentiment (7 / 10) = ''very-positive''"
    by (simp add: classify_sentiment_def)
  ultimately show ?thesis by simp
qed

theorem classify_sentiment_partition_witness:
  "classify_sentiment (1 / 10) = ''positive'' \<and> classify_sentiment (- 1) = ''very-negative''
    \<and> classify_sentiment 1 = ''very-positive''"
  using classify_sentiment_partition [of "1 / 10"] classify_sentiment_partition [of "- 1"]
    classify_sentiment_partition [of 1]
  by simp

text \<open>
  C2. The binning of \<open>add_sentiment_analysis\<close> and \<open>classify_sentiment\<close> do not agree on
  the bin edges: \<open>pd.cut\<close> closes each bin on the right, so a score of \<open>0.7\<close> falls in
  \<open>positive\<close>, \<open>0.1\<close> in \<open>neutral\<close>, \<open>-0.1\<close> in \<open>negative\<close>, \<open>-0.7\<close> in
  \<open>very-negative\<close>, and \<open>-1\<close> in no bin at all (NaN), while \<open>classify_sentiment\<close> puts
  each of them in the bin above. A table with a headline that the analyzer scores \<open>0.7\<close>
  gets the category \<open>positive\<close> for it.
\<close>

theorem cut_sentiment_category_boundaries:
  "cut_sentiment_category (Num (7 / 10)) = Str ''positive''
    \<and> classify_sentiment (7 / 10) = ''very-positive''
    \<and> cut_sentiment_category (Num (1 / 10)) = Str ''neutral''
    \<and> classify_sentiment (1 / 10) = ''positive''
    \<and> cut_sentiment_category (Num (- (1 / 10))) = Str ''negative''
    \<and> classify_sentiment (- (1 / 10)) = ''neutral''
    \<and> cut_sentiment_category (Num (- (7 / 10))) = Str ''very-negative''
    \<and> classify_sentiment (- (7 / 10)) = ''negative''
    \<and> cut_sentiment_category (Num (- 1)) = NaN
    \<and> classify_sentiment (- 1) = ''very-negative''
    \<and> add_sentiment_analysis (\<lambda>s. [(''compound'', 7 / 10)]) (\<lambda>x. ''0.0'')
          [[(''headline'', [Str ''Markets soar''])]] 0 ''headline'' None
        = (Inr 1,
           [[(''headline'', [Str ''Markets soar''])],
            [(''headline'', [Str ''Markets soar'']), (''headline_sentiment'', [Num (7 / 10)]),
             (''sentiment_category'', [Str ''positive'']),
             (''sentiment_group'', [Str ''positive''])]])"
  by (simp add: cut_sentiment_category_def pd_cut_def searchsorted_left_def sentiment_bins_def
      sentiment_categories_def classify_sentiment_def add_sentiment_analysis_def df_copy_def
      store_set_column_def set_column_def get_column_def columns_def Let_def
      get_compound_sentiment_def calculate_sentiment_scores_def bind_result_def
      sentiment_group_def replace_values_def astype_str_def group_replacements_def)

text \<open>
  Everywhere else in \<open>(-1, 1]\<close> the two classifications give the same category.
\<close>

lemma cut_sentiment_category_interior:
  assumes "- 1 < s" and "s \<le> 1"
    and "s \<noteq> 7 / 10" and "s \<noteq> 1 / 10" and "s \<noteq> - (1 / 10)" and "s \<noteq> - (7 / 10)"
  shows "cut_sentiment_category (Num s) = Str (classify_sentiment s)"
  using assms
  by (auto simp: cut_sentiment_category_def pd_cut_def searchsorted_left_def sentiment_bins_def
      sentiment_categories_def classify_sentiment_def)

text \<open>
  C8. The three-way grouping sends \<open>very-positive\<close> and \<open>positive\<close> to \<open>positive\<close>,
  \<open>very-negative\<close> and \<open>negative\<close> to \<open>negative\<close> and \<open>neutral\<close> to itself, and it
  keeps every category string other than the two \<open>very-\<close> tiers as it is. In the table
  \<open>add_sentiment_analysis\<close> returns, the group column is this grouping of the category
  column, row by row.
\<close>

theorem sentiment_group_merge:
  "sentiment_group float_repr (Str ''very-positive'') = Str ''positive''
    \<and> sentiment_group float_repr (Str ''positive'') = Str ''positive''
    \<and> sentiment_group float_repr (Str ''very-negative'') = Str ''negative''
    \<and> sentiment_group float_repr (Str ''negative'') = Str ''negative''
    \<and> sentiment_group float_repr (Str ''neutral'') = Str ''neutral''
    \<and> (\<forall>c. c \<noteq> ''very-positive'' \<and> c \<noteq> ''very-negative''
          \<longrightarrow> sentiment_group float_repr (Str c) = Str c)
    \<and> (\<forall>r st'. add_sentiment_analysis vader float_repr st df headline_column analyzer
                   = (Inr r, st')
          \<longrightarrow> (\<exists>category. get_column (st' ! r) ''sentiment_category'' = Inr category
                \<and> get_column (st' ! r) ''sentiment_group''
                    = Inr (map (sentiment_group float_repr) category)))"
proof -
  have scalar: "sentiment_group float_repr (Str c) =
      Str (if c = ''very-positive'' then ''positive''
           else if c = ''very-negative'' then ''negative'' else c)" for c
    by (simp add: sentiment_group_def replace_values_def astype_str_def group_replacements_def)
  have table: "\<exists>category. get_column (st' ! r) ''sentiment_category'' = Inr category
        \<and> get_column (st' ! r) ''sentiment_group''
            = Inr (map (sentiment_group float_repr) category)"
    if "add_sentiment_analysis vader float_repr st df headline_column analyzer = (Inr r, st')"
    for r st'
    using add_sentiment_analysis_columns [OF that] by blast
  show ?thesis
    using table by (simp add: scalar)
qed

theorem sentiment_group_merge_witness:
  "sentiment_group (\<lambda>x. ''0.0'') (Str ''nan'') = Str ''nan''
    \<and> sentiment_group (\<lambda>x. ''0.0'') (Str ''very-positive'') = Str ''positive''
    \<and> (\<exists>category.
          get_column (snd (add_sentiment_analysis (\<lambda>s. [(''compound'', 9 / 10)]) (\<lambda>x. ''0.0'')
                [[(''headline'', [Str ''Markets soar''])]] 0 ''headline'' None) ! 1)
              ''sentiment_category'' = Inr category
          \<and> get_column (snd (add_sentiment_analysis (\<lambda>s. [(''compound'', 9 / 10)]) (\<lambda>x. ''0.0'')
                [[(''headline'', [Str ''Markets soar''])]] 0 ''headline'' None) ! 1)
              ''sentiment_group'' = Inr (map (sentiment_group (\<lambda>x. ''0.0'')) category))"
proof -
  have run: "add_sentiment_analysis (\<lambda>s. [(''compound'', 9 / 10)]) (\<lambda>x. ''0.0'')
          [[(''headline'', [Str ''Markets soar''])]] 0 ''headline'' None
        = (Inr 1,
           [[(''headline'', [Str ''Markets soar''])],
            [(''headline'', [Str ''Markets soar'']), (''headline_sentiment'', [Num (9 / 10)]),
             (''sentiment_category'', [Str ''very-positive'']),
             (''sentiment_group'', [Str ''positive''])]])"
    by (simp add: cut_sentiment_category_def pd_cut_def searchsorted_left_def sentiment_bins_def
        sentiment_categories_def add_sentiment_analysis_def df_copy_def
        store_set_column_def set_column_def get_column_def columns_def Let_def
        get_compound_sentiment_def calculate_sentiment_scores_def bind_result_def
        sentiment_group_def replace_values_def astype_str_def group_replacements_def)
  show ?thesis
    using sentiment_group_merge [of "\<lambda>x. ''0.0''" "\<lambda>s. [(''compound'', 9 / 10)]"
        "[[(''headline'', [Str ''Markets soar''])]]" 0 "''headline''" None] run
    by simp
qed


section \<open>Properties of the organization extraction\<close>

lemma split_on_not_Nil: "split_on sep s \<noteq> []"
  by (induction s) (auto split: list.splits)

lemma split_on_no_sep: "sep \<notin> set s \<Longrightarrow> split_on sep s = [s]"
  by (induction s) auto

lemma split_on_append:
  "sep \<notin> set u \<Longrightarrow> split_on sep (u @ sep # rest) = u # split_on sep rest"
  by (induction u) auto

lemma hd_split_on: "hd (split_on sep s) = takeWhile (\<lambda>c. c \<noteq> sep) s"
  by (induction s) (auto split: list.splits simp: split_on_not_Nil)

lemma index_0: "xs \<noteq> [] \<Longrightarrow> index xs 0 = Inr (hd xs)"
  by (cases xs) (auto simp: index_def)

lemma index_1: "index (x # y # ys) (Suc 0) = Inr y"
  by (simp add: index_def)

text \<open>
  What the function returns on any string with an \<open>@\<close>: the piece between the first
  \<open>@\<close> and the next one (or the end), cut before its first dot. Neither index of the
  source can raise.
\<close>

lemma extract_organization_general:
  assumes "CHR ''@'' \<notin> set user"
  shows "extract_organization_from_email (user @ CHR ''@'' # rest) =
    Inr (takeWhile (\<lambda>c. c \<noteq> CHR ''.'') (takeWhile (\<lambda>c. c \<noteq> CHR ''@'') rest))"
proof -
  obtain p ps where sp: "split_on (CHR ''@'') rest = p # ps"
    using split_on_not_Nil by (cases "split_on (CHR ''@'') rest") auto
  have p: "p = takeWhile (\<lambda>c. c \<noteq> CHR ''@'') rest"
    using hd_split_on [of "CHR ''@''" rest] sp by simp
  have "split_on (CHR ''@'') (user @ CHR ''@'' # rest) = user # p # ps"
    using assms sp by (simp add: split_on_append)
  then show ?thesis
    by (simp add: extract_organization_from_email_def bind_result_def index_1 index_0
        split_on_not_Nil hd_split_on p)
qed

lemma split_first_at:
  assumes "CHR ''@'' \<in> set s"
  shows "s = takeWhile (\<lambda>c. c \<noteq> CHR ''@'') s @ CHR ''@'' # spec_domain_part s"
proof -
  have ne: "dropWhile (\<lambda>c. c \<noteq> CHR ''@'') s \<noteq> []"
    using assms by (simp add: dropWhile_eq_Nil_conv)
  then have "hd (dropWhile (\<lambda>c. c \<noteq> CHR ''@'') s) = CHR ''@''"
    using hd_dropWhile [of "\<lambda>c. c \<noteq> CHR ''@''" s] by auto
  with ne have "dropWhile (\<lambda>c. c \<noteq> CHR ''@'') s = CHR ''@'' # spec_domain_part s"
    by (cases "dropWhile (\<lambda>c. c \<noteq> CHR ''@'') s") (auto simp: spec_domain_part_def)
  then show ?thesis
    using takeWhile_dropWhile_id [of "\<lambda>c. c \<noteq> CHR ''@''" s] by simp
qed

lemma takeWhile_dot_before_at:
  assumes "CHR ''.'' \<in> set r"
    and "CHR ''@'' \<notin> set (takeWhile (\<lambda>c. c \<noteq> CHR ''.'') r)"
  shows "takeWhile (\<lambda>c. c \<noteq> CHR ''.'') (takeWhile (\<lambda>c. c \<noteq> CHR ''@'') r)
     = takeWhile (\<lambda>c. c \<noteq> CHR ''.'') r"
  using assms by (induction r) (auto split: if_splits)

text \<open>
  C3, as the specification states it, fails on a string with a second \<open>@\<close> before the
  first dot of its domain part: \<open>a@b@c.d\<close> contains \<open>@\<close>, its part after \<open>@\<close> is
  \<open>b@c.d\<close>, which contains a dot and reads \<open>b@c\<close> before it, and the function
  returns \<open>b\<close>.
\<close>

theorem extract_organization_two_ats:
  "CHR ''@'' \<in> set ''a@b@c.d''
    \<and> spec_domain_part ''a@b@c.d'' = ''b@c.d''
    \<and> CHR ''.'' \<in> set (spec_domain_part ''a@b@c.d'')
    \<and> takeWhile (\<lambda>c. c \<noteq> CHR ''.'') (spec_domain_part ''a@b@c.d'') = ''b@c''
    \<and> extract_organization_from_email ''a@b@c.d'' = Inr ''b''
    \<and> extract_organization_from_email ''a@b@c.d''
        \<noteq> Inr (takeWhile (\<lambda>c. c \<noteq> CHR ''.'') (spec_domain_part ''a@b@c.d''))"
  by (simp add: spec_domain_part_def extract_organization_from_email_def bind_result_def
      index_def)

text \<open>
  C3, amended. For every string that contains \<open>@\<close> and whose part after the first
  \<open>@\<close> contains a dot with no further \<open>@\<close> before that dot, the function returns the
  text of that part strictly before its first dot, and raises nothing.
\<close>

theorem extract_organization_email:
  assumes "CHR ''@'' \<in> set s"
    and "CHR ''.'' \<in> set (spec_domain_part s)"
    and "CHR ''@'' \<notin> set (takeWhile (\<lambda>c. c \<noteq> CHR ''.'') (spec_domain_part s))"
  shows "extract_organization_from_email s =
    Inr (takeWhile (\<lambda>c. c \<noteq> CHR ''.'') (spec_domain_part s))"
proof -
  let ?user = "takeWhile (\<lambda>c. c \<noteq> CHR ''@'') s"
  have s: "s = ?user @ CHR ''@'' # spec_domain_part s"
    using assms(1) by (rule split_first_at)
  have "CHR ''@'' \<notin> set ?user"
    by (auto dest: set_takeWhileD)
  then have "extract_organization_from_email (?user @ CHR ''@'' # spec_domain_part s) =
      Inr (takeWhile (\<lambda>c. c \<noteq> CHR ''.'')
            (takeWhile (\<lambda>c. c \<noteq> CHR ''@'') (spec_domain_part s)))"
    by (rule extract_organization_general)
  then show ?thesis
    using s takeWhile_dot_before_at [OF assms(2,3)] by simp
qed

theorem extract_organization_email_witness:
  "extract_organization_from_email ''jo@benzinga.com'' = Inr ''benzinga''"
  using extract_organization_email [of "''jo@benzinga.com''"]
  by (simp add: spec_domain_part_def)

text \<open>
  C4. A string without \<open>@\<close> is returned as it is, and no exception is raised.
\<close>

theorem extract_organization_non_email:
  assumes "CHR ''@'' \<notin> set s"
  shows "extract_organization_from_email s = Inr s"
  using assms by (simp add: extract_organization_from_email_def)

theorem extract_organization_non_email_witness:
  "extract_organization_from_email ''Benzinga Newsdesk'' = Inr ''Benzinga Newsdesk''"
  using extract_organization_non_email [of "''Benzinga Newsdesk''"] by simp

section \<open>Properties of the organization counts\<close>

lemma split_on_length2: "sep \<in> set s \<Longrightarrow> 2 \<le> length (split_on sep s)"
  by (induction s) (auto split: list.splits simp: split_on_not_Nil Suc_le_eq)

lemma extract_organization_total: "\<exists>org. extract_organization_from_email s = Inr org"
proof (cases "CHR ''@'' \<in> set s")
  case True
  then have "1 < length (split_on (CHR ''@'') s)"
    using split_on_length2 [of "CHR ''@''" s] by simp
  moreover have "0 < length (split_on (CHR ''.'') d)" for d
    by (simp add: split_on_not_Nil)
  ultimately show ?thesis
    using True by (simp add: extract_organization_from_email_def bind_result_def index_def)
next
  case False
  then show ?thesis by (simp add: extract_organization_from_email_def)
qed

lemma collect_map_Inr:
  "(\<And>x. x \<in> set xs \<Longrightarrow> g x = Inr (h x)) \<Longrightarrow> collect (map g xs) = Inr (map h xs)"
  by (induction xs) auto

lemma extract_organization_not_Inl: "extract_organization_from_email s \<noteq> Inl e"
  using extract_organization_total [of s] by auto

lemma extract_cell_has_at:
  "has_at c \<Longrightarrow> extract_organization_cell c = Inr (organization_cell c)"
  by (cases c) (auto simp: has_at_def extract_organization_cell_def organization_cell_def
      bind_result_def extract_organization_not_Inl split: sum.splits)

lemma str_contains_Inr:
  "str_contains (CHR ''@'') pubs = Inr m \<Longrightarrow> m = map has_at pubs"
  by (auto simp: str_contains_def has_at_def split: if_splits)

lemma loc_select_has_at:
  "loc_select (map has_at pubs) pubs =
     map (\<lambda>i. (i, pubs ! i)) (filter (\<lambda>i. has_at (pubs ! i)) [0..<length pubs])"
  unfolding loc_select_def by (rule arg_cong [where f = "map _"], rule filter_cong) auto

lemma series_apply_selected:
  "series_apply extract_organization_cell (loc_select (map has_at pubs) pubs) =
     Inr (map (\<lambda>i. (i, organization_cell (pubs ! i)))
            (filter (\<lambda>i. has_at (pubs ! i)) [0..<length pubs]))"
proof -
  have "collect (map (\<lambda>i. bind_result (extract_organization_cell (pubs ! i)) (\<lambda>v. Inr (i, v)))
          (filter (\<lambda>i. has_at (pubs ! i)) [0..<length pubs]))
      = Inr (map (\<lambda>i. (i, organization_cell (pubs ! i)))
          (filter (\<lambda>i. has_at (pubs ! i)) [0..<length pubs]))"
    by (rule collect_map_Inr) (simp add: extract_cell_has_at bind_result_def)
  then show ?thesis
    by (simp add: series_apply_def loc_select_has_at comp_def)
qed

lemma map_of_graph:
  "map_of (map (\<lambda>i. (i, f i)) ks) k = (if k \<in> set ks then Some (f k) else None)"
  by (induction ks) auto

lemma organization_cell_not_email: "\<not> has_at c \<Longrightarrow> organization_cell c = NaN"
  by (cases c) (auto simp: has_at_def organization_cell_def)

lemma new_column_cells:
  "map (\<lambda>i. if map has_at pubs ! i
             then (case map_of (map (\<lambda>i. (i, organization_cell (pubs ! i)))
                          (filter (\<lambda>i. has_at (pubs ! i)) [0..<length pubs])) i of
                     Some v \<Rightarrow> v | None \<Rightarrow> NaN)
             else replicate (length (map has_at pubs)) NaN ! i)
       [0..<length (map has_at pubs)]
   = map organization_cell pubs"
  by (rule nth_equalityI) (auto simp: map_of_graph organization_cell_not_email)

lemma get_set_new_column:
  assumes "name \<notin> set (columns d)"
  shows "get_column (set_column d name col) name = Inr col"
proof -
  have "map_of d name = None"
    using assms by (simp add: columns_def map_of_eq_None_iff)
  then have "map_of (d @ [(name, col)]) name = Some col"
    by (simp add: map_add_def)
  then show ?thesis
    using assms by (simp add: get_column_def set_column_def)
qed

lemma loc_assign_new:
  assumes "name \<notin> set (columns d)"
  shows "loc_assign d (map has_at pubs) name
           (map (\<lambda>i. (i, organization_cell (pubs ! i)))
              (filter (\<lambda>i. has_at (pubs ! i)) [0..<length pubs]))
         = set_column d name (map organization_cell pubs)"
proof -
  have "map_of d name = None"
    using assms by (simp add: columns_def map_of_eq_None_iff)
  then show ?thesis
    unfolding loc_assign_def Let_def by (simp only: option.case new_column_cells)
qed

lemma add_organization_column_result:
  assumes "df < length st"
    and "organization_column \<notin> set (columns (st ! df))"
    and "get_column (st ! df) publisher_column = Inr pubs"
    and "pubs = [] \<or> list_ex is_str pubs"
  shows "add_organization_column st df publisher_column organization_column =
     (Inr (length st),
      st @ [set_column (st ! df) organization_column (map organization_cell pubs)])"
proof -
  have m: "str_contains (CHR ''@'') pubs = Inr (map has_at pubs)"
    using assms(4) by (auto simp: str_contains_def has_at_def)
  show ?thesis
    using assms(1-3)
    by (simp add: add_organization_column_def df_copy_def m series_apply_selected
        loc_assign_new)
qed

lemma set_unique: "set (unique xs) = set xs"
  by (induction xs) auto

lemma distinct_unique: "distinct (unique xs)"
  by (induction xs) (auto simp: set_unique)

lemma value_counts_rows:
  "(c, n) \<in> set (value_counts col) \<longleftrightarrow>
     c \<in> set col \<and> c \<noteq> NaN \<and> n = count_list (filter (\<lambda>c. c \<noteq> NaN) col) c"
  by (auto simp: value_counts_def Let_def set_unique)

lemma count_organization_cells:
  "count_list (filter (\<lambda>c. c \<noteq> NaN) (map organization_cell pubs)) (Str org)
     = length (filter (email_with_organization org) pubs)"
proof (induction pubs)
  case Nil
  then show ?case by simp
next
  case (Cons c pubs)
  show ?case
  proof (cases "has_at c")
    case True
    then obtain s where c: "c = Str s" and at: "CHR ''@'' \<in> set s"
      by (cases c) (auto simp: has_at_def)
    obtain o' where o': "extract_organization_from_email s = Inr o'"
      using extract_organization_total by blast
    show ?thesis
      using Cons.IH c at o'
      by (simp add: organization_cell_def email_with_organization_def)
  next
    case False
    then have "organization_cell c = NaN" by (rule organization_cell_not_email)
    moreover have "\<not> email_with_organization org c"
      using False by (cases c) (auto simp: has_at_def email_with_organization_def)
    ultimately show ?thesis using Cons.IH by simp
  qed
qed

lemma organization_cell_cases: "organization_cell c = NaN \<or> (\<exists>org. organization_cell c = Str org)"
  by (cases c) (auto simp: organization_cell_def split: sum.splits)


lemma get_organization_counts_on_demand:
  assumes "df < length st"
    and "''organization'' \<notin> set (columns (st ! df))"
    and "get_column (st ! df) ''publisher'' = Inr pubs"
    and "pubs = [] \<or> list_ex is_str pubs"
  shows "fst (get_organization_counts st df ''organization'') =
    Inr (value_counts (map organization_cell pubs))"
  using assms(2)
  by (simp add: get_organization_counts_def add_organization_column_result [OF assms]
      get_set_new_column)

lemma distinct_map_insort_key:
  "distinct (map f (insort_key k x xs)) \<longleftrightarrow> f x \<notin> f ` set xs \<and> distinct (map f xs)"
  by (induction xs) (auto simp: set_insort_key)

lemma distinct_map_sort_key: "distinct (map f (sort_key k xs)) \<longleftrightarrow> distinct (map f xs)"
  by (induction xs) (auto simp: distinct_map_insort_key)

lemma value_counts_distinct: "distinct (map fst (value_counts col))"
  by (simp add: value_counts_def Let_def distinct_map_sort_key comp_def distinct_unique)

text \<open>
  C10, as the specification states it, fails when a publisher without \<open>@\<close> bears the
  name that an email publisher's organization has: with the publishers \<open>benzinga\<close> and
  \<open>jo@benzinga.com\<close> the result has the row \<open>benzinga\<close> (with count 1, from the
  email), so it does contain a row named after a non-email publisher.
\<close>

theorem organization_counts_name_clash:
  "fst (get_organization_counts
          [[(''publisher'', [Str ''benzinga'', Str ''jo@benzinga.com''])]] 0 ''organization'')
      = Inr [(Str ''benzinga'', 1)]
    \<and> get_column [(''publisher'', [Str ''benzinga'', Str ''jo@benzinga.com''])] ''publisher''
      = Inr [Str ''benzinga'', Str ''jo@benzinga.com'']
    \<and> CHR ''@'' \<notin> set ''benzinga''"
  by code_simp

text \<open>
  C10, amended. For every table without an organization column whose publisher column
  has an entry \<open>p\<close> without \<open>@\<close>, \<open>get_organization_counts\<close> returns a table whose
  rows are exactly the organizations extracted from the publishers with an \<open>@\<close>, one row
  each, with the number of those publishers as its count. Entries without \<open>@\<close> are
  counted nowhere, and \<open>p\<close> is the name of a row only if some email publisher's
  organization is \<open>p\<close>.
\<close>

theorem organization_counts_count_emails_only:
  assumes "df < length st"
    and "''organization'' \<notin> set (columns (st ! df))"
    and "get_column (st ! df) ''publisher'' = Inr pubs"
    and "Str p \<in> set pubs" and "CHR ''@'' \<notin> set p"
  shows "\<exists>rows. fst (get_organization_counts st df ''organization'') = Inr rows
     \<and> (\<forall>org n. (Str org, n) \<in> set rows \<longleftrightarrow>
           0 < n \<and> n = length (filter (email_with_organization org) pubs))
     \<and> (\<forall>c n. (c, n) \<in> set rows \<longrightarrow> is_str c)
     \<and> distinct (map fst rows)
     \<and> ((\<exists>n. (Str p, n) \<in> set rows) \<longleftrightarrow> (\<exists>c \<in> set pubs. email_with_organization p c))"
proof -
  let ?rows = "value_counts (map organization_cell pubs)"
  have "is_str (Str p)" by (simp add: is_str_def)
  then have "list_ex is_str pubs"
    using assms(4) by (auto simp: list_ex_iff)
  then have res: "fst (get_organization_counts st df ''organization'') = Inr ?rows"
    using get_organization_counts_on_demand [OF assms(1-3)] by simp
  have rows: "(Str org, n) \<in> set ?rows \<longleftrightarrow>
      0 < n \<and> n = length (filter (email_with_organization org) pubs)" for org n
  proof -
    have "Str org \<in> set (map organization_cell pubs) \<longleftrightarrow>
        0 < count_list (filter (\<lambda>c. c \<noteq> NaN) (map organization_cell pubs)) (Str org)"
      using count_list_0_iff [of "filter (\<lambda>c. c \<noteq> NaN) (map organization_cell pubs)" "Str org"]
      by auto
    then show ?thesis
      by (auto simp: value_counts_rows count_organization_cells)
  qed
  have strs: "is_str c" if "(c, n) \<in> set ?rows" for c n
  proof -
    from that obtain x where "c = organization_cell x" and "c \<noteq> NaN"
      by (auto simp: value_counts_rows)
    then show ?thesis
      using organization_cell_cases [of x] by (auto simp: is_str_def)
  qed
  have "(\<exists>n. (Str p, n) \<in> set ?rows) \<longleftrightarrow> (\<exists>c \<in> set pubs. email_with_organization p c)"
    by (auto simp: rows filter_empty_conv)
  then show ?thesis
    using res rows strs value_counts_distinct by blast
qed

theorem organization_counts_count_emails_only_witness:
  "\<exists>rows. fst (get_organization_counts
          [[(''publisher'', [Str ''Lisa Levin'', Str ''jo@benzinga.com''])]] 0 ''organization'')
        = Inr rows
     \<and> (Str ''benzinga'', 1) \<in> set rows
     \<and> \<not> (\<exists>n. (Str ''Lisa Levin'', n) \<in> set rows)"
proof -
  let ?pubs = "[Str ''Lisa Levin'', Str ''jo@benzinga.com'']"
  let ?st = "[[(''publisher'', ?pubs)]]"
  have org: "extract_organization_from_email ''jo@benzinga.com'' = Inr ''benzinga''"
    by (simp add: extract_organization_from_email_def bind_result_def index_def)
  have "\<exists>rows. fst (get_organization_counts ?st 0 ''organization'') = Inr rows
     \<and> (\<forall>org n. (Str org, n) \<in> set rows \<longleftrightarrow>
           0 < n \<and> n = length (filter (email_with_organization org) ?pubs))
     \<and> (\<forall>c n. (c, n) \<in> set rows \<longrightarrow> is_str c)
     \<and> distinct (map fst rows)
     \<and> ((\<exists>n. (Str ''Lisa Levin'', n) \<in> set rows)
          \<longleftrightarrow> (\<exists>c \<in> set ?pubs. email_with_organization ''Lisa Levin'' c))"
    by (rule organization_counts_count_emails_only [of 0 ?st ?pubs "''Lisa Levin''"])
      (simp_all add: columns_def get_column_def)
  then obtain rows where res: "fst (get_organization_counts ?st 0 ''organization'') = Inr rows"
    and cnt: "\<And>org n. (Str org, n) \<in> set rows \<longleftrightarrow>
           0 < n \<and> n = length (filter (email_with_organization org) ?pubs)"
    and abs: "(\<exists>n. (Str ''Lisa Levin'', n) \<in> set rows)
          \<longleftrightarrow> (\<exists>c \<in> set ?pubs. email_with_organization ''Lisa Levin'' c)"
    by blast
  have "(Str ''benzinga'', 1) \<in> set rows"
    by (simp add: cnt email_with_organization_def org)
  moreover have "\<not> (\<exists>n. (Str ''Lisa Levin'', n) \<in> set rows)"
    by (simp add: abs email_with_organization_def org)
  ultimately show ?thesis
    using res by blast
qed


section \<open>The column-adding functions and the caller's table\<close>

lemma add_organization_column_frame:
  "take (length st) (snd (add_organization_column st df pc oc)) = st
   \<and> (\<forall>r. fst (add_organization_column st df pc oc) = Inr r \<longrightarrow> r = length st)
   \<and> length (snd (add_organization_column st df pc oc)) = Suc (length st)"
  by (simp add: add_organization_column_def df_copy_def Let_def split: sum.splits)

lemma add_sentiment_analysis_frame:
  "take (length st) (snd (add_sentiment_analysis vader fr st df hc an)) = st
   \<and> (\<forall>r. fst (add_sentiment_analysis vader fr st df hc an) = Inr r \<longrightarrow> r = length st)
   \<and> length (snd (add_sentiment_analysis vader fr st df hc an)) = Suc (length st)"
  by (simp add: add_sentiment_analysis_def df_copy_def store_set_column_def Let_def
      split: sum.splits)

lemma add_headline_length_frame:
  "take (length st) (snd (add_headline_length fr st df hc)) = st
   \<and> (\<forall>r. fst (add_headline_length fr st df hc) = Inr r \<longrightarrow> r = length st)
   \<and> length (snd (add_headline_length fr st df hc)) = Suc (length st)"
  by (simp add: add_headline_length_def df_copy_def store_set_column_def Let_def
      split: sum.splits)

lemma take_all_nth: "take n ys = xs \<Longrightarrow> n = length xs \<Longrightarrow> i < n \<Longrightarrow> ys ! i = xs ! i"
  by (metis nth_take)

text \<open>
  C9. Each of \<open>add_organization_column\<close>, \<open>add_sentiment_analysis\<close> and
  \<open>add_headline_length\<close>, called on the table at address \<open>df\<close>, leaves that table and
  every other table of the store as it was, whether it returns or raises; when it returns,
  the result is a table at a new address, different from \<open>df\<close>.
\<close>

theorem column_adders_keep_input:
  assumes "df < length st"
  shows "(let (r, st') = add_organization_column st df publisher_column organization_column
          in st' ! df = st ! df \<and> take (length st) st' = st
             \<and> (\<forall>a. r = Inr a \<longrightarrow> a \<noteq> df \<and> a = length st \<and> a < length st'))
    \<and> (let (r, st') = add_sentiment_analysis vader float_repr st df headline_column analyzer
          in st' ! df = st ! df \<and> take (length st) st' = st
             \<and> (\<forall>a. r = Inr a \<longrightarrow> a \<noteq> df \<and> a = length st \<and> a < length st'))
    \<and> (let (r, st') = add_headline_length float_repr st df headline_column
          in st' ! df = st ! df \<and> take (length st) st' = st
             \<and> (\<forall>a. r = Inr a \<longrightarrow> a \<noteq> df \<and> a = length st \<and> a < length st'))"
  using assms
    add_organization_column_frame [of st df publisher_column organization_column]
    add_sentiment_analysis_frame [of st vader float_repr df headline_column analyzer]
    add_headline_length_frame [of st float_repr df headline_column]
  by (auto simp: case_prod_beta Let_def dest: take_all_nth)

theorem column_adders_keep_input_witness:
  "add_headline_length (\<lambda>x. ''0.0'')
      [[(''headline'', [Str ''Markets soar'', NaN]),
        (''publisher'', [Str ''jo@benzinga.com'', Str ''Lisa Levin''])]]
      0 ''headline''
    = (Inr 1,
       [[(''headline'', [Str ''Markets soar'', NaN]),
         (''publisher'', [Str ''jo@benzinga.com'', Str ''Lisa Levin''])],
        [(''headline'', [Str ''Markets soar'', Str ''nan'']),
         (''publisher'', [Str ''jo@benzinga.com'', Str ''Lisa Levin'']),
         (''headline_length'', [Num 12, Num 3])]])
   \<and> add_organization_column
      [[(''headline'', [Str ''Markets soar'', NaN]),
        (''publisher'', [Str ''jo@benzinga.com'', Str ''Lisa Levin''])]]
      0 ''publisher'' ''organization''
    = (Inr 1,
       [[(''headline'', [Str ''Markets soar'', NaN]),
         (''publisher'', [Str ''jo@benzinga.com'', Str ''Lisa Levin''])],
        [(''headline'', [Str ''Markets soar'', NaN]),
         (''publisher'', [Str ''jo@benzinga.com'', Str ''Lisa Levin'']),
         (''organization'', [Str ''benzinga'', NaN])]])
   \<and> add_sentiment_analysis (\<lambda>s. [(''compound'', 7 / 10)]) (\<lambda>x. ''0.0'')
      [[(''headline'', [Str ''Markets soar'', NaN]),
        (''publisher'', [Str ''jo@benzinga.com'', Str ''Lisa Levin''])]]
      0 ''headline'' None
    = (Inl AttributeError,
       [[(''headline'', [Str ''Markets soar'', NaN]),
         (''publisher'', [Str ''jo@benzinga.com'', Str ''Lisa Levin''])],
        [(''headline'', [Str ''Markets soar'', NaN]),
         (''publisher'', [Str ''jo@benzinga.com'', Str ''Lisa Levin''])]])"
  using column_adders_keep_input
    [of 0 "[[(''headline'', [Str ''Markets soar'', NaN]),
             (''publisher'', [Str ''jo@benzinga.com'', Str ''Lisa Levin''])]]"
      "''publisher''" "''organization''" "\<lambda>s. [(''compound'', 7 / 10)]" "\<lambda>x. ''0.0''"
      "''headline''" None]
  by (simp add: add_headline_length_def add_organization_column_def add_sentiment_analysis_def
      df_copy_def store_set_column_def set_column_def get_column_def columns_def Let_def
      astype_str_def len_cell_def str_contains_def is_str_def loc_select_def series_apply_def
      loc_assign_def extract_organization_cell_def extract_organization_from_email_def
      bind_result_def index_def get_compound_sentiment_def calculate_sentiment_scores_def
      upt_rec)


section \<open>Properties of the text statistics\<close>

lemma sum_counter_add: "sum_list (map snd (counter_add x c)) = Suc (sum_list (map snd c))"
  by (induction c) auto

lemma sum_foldl_counter_add:
  "sum_list (map snd (foldl (\<lambda>c x. counter_add x c) c xs)) = sum_list (map snd c) + length xs"
  by (induction xs arbitrary: c) (auto simp: sum_counter_add)

lemma sum_Counter: "sum_list (map snd (Counter xs)) = length xs"
  by (simp add: Counter_def sum_foldl_counter_add)

lemma sum_insort_key:
  "sum_list (map f (insort_key k x xs)) = (f x :: nat) + sum_list (map f xs)"
  by (induction xs) auto

lemma sum_sort_key: "sum_list (map f (sort_key k xs)) = (sum_list (map f xs) :: nat)"
  by (induction xs) (auto simp: sum_insort_key)

lemma extend_tokens_concat:
  "extend_tokens lib acc headlines =
     acc @ concat (map (\<lambda>h. get_tokens lib h True True True) headlines)"
  by (induction headlines arbitrary: acc) auto

text \<open>
  C7. With \<open>top_n = None\<close>, the counts of the pairs \<open>get_word_frequencies\<close> returns add
  up to the number of tokens that \<open>get_tokens\<close> produces over all the headlines.
\<close>

theorem word_frequencies_sum:
  "sum_list (map snd (get_word_frequencies lib headlines None))
     = length (concat (map (\<lambda>headline. get_tokens lib headline True True True) headlines))"
  by (simp add: get_word_frequencies_def most_common_def sum_sort_key sum_Counter
      extend_tokens_concat Let_def del: length_concat)

lemma set_slice_to: "set (slice_to n xs) \<subseteq> set xs"
  by (auto simp: slice_to_def dest: in_set_takeD)

lemma nbest_subset: "t \<in> set (nbest sc n fd) \<Longrightarrow> t \<in> fst ` set fd"
proof -
  assume "t \<in> set (nbest sc n fd)"
  then have "t \<in> fst ` set (score_ngrams sc fd)"
    using set_slice_to [of n "score_ngrams sc fd"] by (auto simp: nbest_def)
  then show ?thesis
    by (force simp: score_ngrams_def)
qed

lemma count_of_counter_add:
  "count_of (counter_add x c) k = count_of c k + (if k = x then 1 else 0)"
  by (induction c) (auto simp: count_of_def)

lemma keys_counter_add: "fst ` set (counter_add x c) = insert x (fst ` set c)"
  by (induction x c rule: counter_add.induct) auto

lemma distinct_counter_add:
  "distinct (map fst c) \<Longrightarrow> distinct (map fst (counter_add x c))"
  by (induction c) (auto simp: keys_counter_add)

lemma count_of_entry: "distinct (map fst c) \<Longrightarrow> (k, n) \<in> set c \<Longrightarrow> count_of c k = n"
  by (simp add: count_of_def)

lemma count_trigrams_inv:
  "distinct (map fst tfd) \<Longrightarrow>
     distinct (map fst (count_trigrams tfd windows))
     \<and> count_of (count_trigrams tfd windows) (a, b, c)
         = count_of tfd (a, b, c) + count_list windows (Some a, Some b, Some c)"
proof (induction tfd windows rule: count_trigrams.induct)
  case (1 tfd)
  then show ?case by simp
next
  case (2 tfd w1 w2 w3 windows)
  then show ?case
    by (auto simp: distinct_counter_add count_of_counter_add split: option.splits)
qed

lemma count_list_padded:
  "count_list (ngrams3 (map Some ws @ [None, None])) (Some a, Some b, Some c)
     = count_list (ngrams3 ws) (a, b, c)"
  by (induction ws rule: ngrams3.induct) auto

lemma filter_upt_Suc:
  "length (filter P [0..<Suc n]) = (if P 0 then 1 else 0) + length (filter (\<lambda>i. P (Suc i)) [0..<n])"
proof -
  have "[0..<Suc n] = 0 # [Suc 0..<Suc n]"
    by (rule upt_conv_Cons) simp
  also have "[Suc 0..<Suc n] = map Suc [0..<n]"
    by (rule map_Suc_upt [symmetric])
  finally have eq: "[0..<Suc n] = 0 # map Suc [0..<n]" .
  show ?thesis
    unfolding eq by (simp add: filter_map comp_def)
qed

lemma window_count_Cons:
  "window_count t (x # xs) =
     (if take 3 (x # xs) = [fst t, fst (snd t), snd (snd t)] then 1 else 0) + window_count t xs"
  unfolding window_count_def
  by (simp add: filter_upt_Suc del: upt_Suc)

lemma count_list_ngrams3:
  "count_list (ngrams3 ws) (a, b, c) = window_count (a, b, c) ws"
proof (induction ws rule: ngrams3.induct)
  case (1 x y z xs)
  have "window_count (a, b, c) (x # y # z # xs)
      = (if (x, y, z) = (a, b, c) then 1 else 0) + window_count (a, b, c) (y # z # xs)"
    by (simp add: window_count_Cons [of _ x])
  with 1 show ?case by auto
qed (simp_all add: window_count_def upt_rec)

lemma from_words_entry:
  assumes "((a, b, c), n) \<in> set (from_words ws)"
  shows "n = window_count (a, b, c) ws"
proof -
  have inv: "distinct (map fst (from_words ws))
     \<and> count_of (from_words ws) (a, b, c) = count_list (ngrams_pad_right ws) (Some a, Some b, Some c)"
    using count_trigrams_inv [of "[]" "ngrams_pad_right ws" a b c]
    by (simp add: from_words_def count_of_def)
  then have "n = count_list (ngrams_pad_right ws) (Some a, Some b, Some c)"
    using assms count_of_entry by fastforce
  then show ?thesis
    by (simp add: ngrams_pad_right_def count_list_padded count_list_ngrams3)
qed

text \<open>
  C5. Every trigram \<open>get_trigrams\<close> returns occurs at least \<open>freq_filter\<close> times as a
  window of three consecutive words of the word list the finder was built from, the
  concatenation of the tokenized headlines, whatever the score and \<open>top_n\<close> are.
\<close>

theorem trigrams_meet_frequency_floor:
  assumes "t \<in> set (get_trigrams pmi headlines freq_filter top_n)"
  shows "freq_filter \<le> int (window_count t (concat headlines))"
proof -
  obtain a b c where t: "t = (a, b, c)" by (cases t) auto
  from assms have "t \<in> fst ` set (apply_freq_filter freq_filter (from_words (concat headlines)))"
    by (auto simp: get_trigrams_def Let_def dest: nbest_subset)
  then obtain n where n: "(t, n) \<in> set (from_words (concat headlines))"
    and fl: "freq_filter \<le> int n"
    by (auto simp: apply_freq_filter_def)
  from n have "n = window_count (a, b, c) (concat headlines)"
    unfolding t by (rule from_words_entry)
  with fl t show ?thesis by simp
qed

theorem trigrams_meet_frequency_floor_witness:
  "(''a'', ''b'', ''c'') \<in> set (get_trigrams (\<lambda>ws t. 0) [[''a'', ''b''], [''c'', ''a'', ''b'', ''c'']] 2 50)
    \<and> (2 :: int) \<le> int (window_count (''a'', ''b'', ''c'') (concat [[''a'', ''b''], [''c'', ''a'', ''b'', ''c'']]))"
proof -
  have m: "(''a'', ''b'', ''c'')
      \<in> set (get_trigrams (\<lambda>ws t. 0) [[''a'', ''b''], [''c'', ''a'', ''b'', ''c'']] 2 50)"
    by code_simp
  show ?thesis
    using m trigrams_meet_frequency_floor [OF m] by simp
qed


section \<open>Properties of the stock data loader\<close>

lemma keys_dict_set: "fst ` set (dict_set d k v) = insert k (fst ` set d)"
  by (induction d k v rule: dict_set.induct) auto

lemma load_loop_result:
  "(case load_loop fs to_datetime base_path tickers stock_data out of
      (Inr d, out') \<Rightarrow>
        fst ` set d = fst ` set stock_data
            \<union> {t \<in> set tickers. path_exists fs (stock_file_path base_path t)}
        \<and> out' = out @ map (\<lambda>t. warning_line t (stock_file_path base_path t))
              (filter (\<lambda>t. \<not> path_exists fs (stock_file_path base_path t)) tickers)
    | (Inl e, out') \<Rightarrow>
        \<exists>t \<in> set tickers. path_exists fs (stock_file_path base_path t)
          \<and> load_file fs to_datetime (stock_file_path base_path t) = Inl e)"
proof (induction tickers arbitrary: stock_data out)
  case Nil
  show ?case by simp
next
  case (Cons t ts)
  show ?case
  proof (cases "path_exists fs (stock_file_path base_path t)")
    case True
    show ?thesis
    proof (cases "load_file fs to_datetime (stock_file_path base_path t)")
      case (Inl e)
      with True show ?thesis by simp
    next
      case (Inr df)
      with True Cons.IH [of "dict_set stock_data t df" out] show ?thesis
        by (auto simp: keys_dict_set split: sum.splits prod.splits)
    qed
  next
    case False
    with Cons.IH [of stock_data "out @ [warning_line t (stock_file_path base_path t)]"]
    show ?thesis
      by (auto split: sum.splits prod.splits)
  qed
qed

lemma load_loop_returns:
  assumes "\<forall>t \<in> set tickers. path_exists fs (stock_file_path base_path t)
      \<longrightarrow> (\<exists>df. load_file fs to_datetime (stock_file_path base_path t) = Inr df)"
  shows "\<exists>d. fst (load_loop fs to_datetime base_path tickers stock_data out) = Inr d"
  using assms
proof (induction tickers arbitrary: stock_data out)
  case Nil
  show ?case by simp
next
  case (Cons t ts)
  then show ?case by (auto simp: Let_def)
qed

text \<open>
  C6. A ticker whose file does not exist never makes \<open>load_stock_data\<close> raise: an
  exception can only come from reading a file that exists. When the function returns,
  the keys of the dictionary are exactly the tickers whose files exist, and the output
  is one warning line for each ticker whose file is missing, in the order of the tickers.
  It does return whenever every existing file can be read.
\<close>

theorem load_stock_data_missing_files:
  "(case load_stock_data fs to_datetime tickers base_path of
      (Inr stock_data, out) \<Rightarrow>
        fst ` set stock_data = {t \<in> set tickers. path_exists fs (stock_file_path base_path t)}
        \<and> out = map (\<lambda>t. warning_line t (stock_file_path base_path t))
              (filter (\<lambda>t. \<not> path_exists fs (stock_file_path base_path t)) tickers)
    | (Inl e, out) \<Rightarrow>
        \<exists>t \<in> set tickers. path_exists fs (stock_file_path base_path t)
          \<and> load_file fs to_datetime (stock_file_path base_path t) = Inl e)
   \<and> ((\<forall>t \<in> set tickers. path_exists fs (stock_file_path base_path t)
          \<longrightarrow> (\<exists>df. load_file fs to_datetime (stock_file_path base_path t) = Inr df))
        \<longrightarrow> (\<exists>stock_data. fst (load_stock_data fs to_datetime tickers base_path) = Inr stock_data))"
proof -
  have outcome: "case load_stock_data fs to_datetime tickers base_path of
      (Inr stock_data, out) \<Rightarrow>
        fst ` set stock_data = {t \<in> set tickers. path_exists fs (stock_file_path base_path t)}
        \<and> out = map (\<lambda>t. warning_line t (stock_file_path base_path t))
              (filter (\<lambda>t. \<not> path_exists fs (stock_file_path base_path t)) tickers)
    | (Inl e, out) \<Rightarrow>
        \<exists>t \<in> set tickers. path_exists fs (stock_file_path base_path t)
          \<and> load_file fs to_datetime (stock_file_path base_path t) = Inl e"
    using load_loop_result [where fs = fs and to_datetime = to_datetime and base_path = base_path
        and tickers = tickers and stock_data = "[]" and out = "[]"]
    by (auto simp: load_stock_data_def split: prod.splits sum.splits)
  have returns: "\<exists>stock_data. fst (load_stock_data fs to_datetime tickers base_path) = Inr stock_data"
    if "\<forall>t \<in> set tickers. path_exists fs (stock_file_path base_path t)
          \<longrightarrow> (\<exists>df. load_file fs to_datetime (stock_file_path base_path t) = Inr df)"
    unfolding load_stock_data_def using that by (rule load_loop_returns)
  show ?thesis
    using outcome returns by blast
qed

theorem load_stock_data_missing_files_witness:
  "load_stock_data
     \<lparr>path_exists = (\<lambda>p. p = ''data/AAPL.csv''),
      read_csv = (\<lambda>p. Inr [(''Date'', [Str ''2020-01-02'']), (''Close'', [Num 75])])\<rparr>
     (\<lambda>c. Inr c) [''AAPL'', ''MSFT''] ''data''
   = (Inr [(''AAPL'', [(''Date'', [Str ''2020-01-02'']), (''Close'', [Num 75])])],
      [''Warning: File not found for MSFT: data/MSFT.csv''])"
  using load_stock_data_missing_files
    [where fs = "\<lparr>path_exists = (\<lambda>p. p = ''data/AAPL.csv''),
          read_csv = (\<lambda>p. Inr [(''Date'', [Str ''2020-01-02'']), (''Close'', [Num 75])])\<rparr>"
      and to_datetime = "\<lambda>c. Inr c" and tickers = "[''AAPL'', ''MSFT'']"
      and base_path = "''data''"]
  by (simp add: load_stock_data_def stock_file_path_def path_join_def warning_line_def
      load_file_def bind_result_def columns_def get_column_def set_column_def)


end
